theory Spec2Isabelle
  imports Main
begin

section \<open>JavaScript values and the runtime the service relies on\<close>

text \<open>
  The service in \<^verbatim>\<open>src/services/api.ts\<close> handles untyped JSON values. A JavaScript
  value is modelled by the datatype below. The code never computes with numbers (it
  only tests their truthiness and turns them into text), so the number type is a
  parameter \<open>'n\<close>. A string is a list of code units; the model covers the code units
  below 256, which is what \<^typ>\<open>char\<close> holds. An object is an association list in
  insertion order.
\<close>

datatype 'n jsval =
    JUndefined
  | JNull
  | JBool bool
  | JNumber 'n
  | JString string
  | JArray "'n jsval list"
  | JObject "(string \<times> 'n jsval) list"

text \<open>
  Errors are values. \<open>PlainError\<close> is \<^verbatim>\<open>new Error(msg)\<close>; the two other kinds are the
  errors the engine itself raises.
\<close>

datatype error_kind = PlainError | TypeError | SyntaxError

datatype js_error = JsError error_kind string

fun message :: "js_error \<Rightarrow> string" where
  "message (JsError k m) = m"

text \<open>
  What the code takes from its platform and does not define itself:
  \<^verbatim>\<open>JSON.parse\<close> (\<open>Inl\<close> is the message of the SyntaxError it throws),
  \<^verbatim>\<open>JSON.stringify\<close>, the text and the truthiness of a number, the message of the
  TypeError raised when a property of \<^verbatim>\<open>null\<close> or \<^verbatim>\<open>undefined\<close> is read, and the
  environment variable \<^verbatim>\<open>EXPO_PUBLIC_API_URL\<close>.
\<close>

record 'n platform =
  json_parse :: "string \<Rightarrow> string + 'n jsval"
  json_stringify :: "'n jsval \<Rightarrow> string"
  num_string :: "'n \<Rightarrow> string"
  num_truthy :: "'n \<Rightarrow> bool"
  null_prop_msg :: "string \<Rightarrow> string"
  EXPO_PUBLIC_API_URL :: "string option"

text \<open>Truthiness, as \<^verbatim>\<open>if (v)\<close>, \<^verbatim>\<open>!v\<close> and \<^verbatim>\<open>a || b\<close> test it.\<close>

fun truthy :: "'n platform \<Rightarrow> 'n jsval \<Rightarrow> bool" where
  "truthy P JUndefined = False"
| "truthy P JNull = False"
| "truthy P (JBool b) = b"
| "truthy P (JNumber n) = num_truthy P n"
| "truthy P (JString s) = (s \<noteq> [])"
| "truthy P (JArray xs) = True"
| "truthy P (JObject kvs) = True"

text \<open>The \<^verbatim>\<open>typeof\<close> operator; \<^verbatim>\<open>typeof null\<close> is \<^verbatim>\<open>'object'\<close>, and so is an array's.\<close>

fun typeof :: "'n jsval \<Rightarrow> string" where
  "typeof JUndefined = ''undefined''"
| "typeof JNull = ''object''"
| "typeof (JBool b) = ''boolean''"
| "typeof (JNumber n) = ''number''"
| "typeof (JString s) = ''string''"
| "typeof (JArray xs) = ''object''"
| "typeof (JObject kvs) = ''object''"

fun isArray :: "'n jsval \<Rightarrow> bool" where
  "isArray (JArray xs) = True"
| "isArray v = False"

text \<open>
  Reading a property \<^verbatim>\<open>v.k\<close>, for the property names the source reads (\<^verbatim>\<open>message\<close>,
  \<^verbatim>\<open>error\<close>, \<^verbatim>\<open>data\<close>, \<^verbatim>\<open>latitude\<close>, \<^verbatim>\<open>longitude\<close>): none of them is an index or a
  built-in property, so only an object can hold one; on \<^verbatim>\<open>null\<close> and \<^verbatim>\<open>undefined\<close>
  the read throws a TypeError.
\<close>

fun get_prop :: "'n platform \<Rightarrow> 'n jsval \<Rightarrow> string \<Rightarrow> js_error + 'n jsval" where
  "get_prop P JUndefined k = Inl (JsError TypeError (null_prop_msg P k))"
| "get_prop P JNull k = Inl (JsError TypeError (null_prop_msg P k))"
| "get_prop P (JObject kvs) k = Inr (case map_of kvs k of None \<Rightarrow> JUndefined | Some v \<Rightarrow> v)"
| "get_prop P v k = Inr JUndefined"

text \<open>
  \<^verbatim>\<open>String(v)\<close>. An array is joined with commas, \<^verbatim>\<open>null\<close> and \<^verbatim>\<open>undefined\<close> elements
  giving the empty string.
\<close>

fun join_comma :: "string list \<Rightarrow> string" where
  "join_comma [] = []"
| "join_comma [s] = s"
| "join_comma (s # t # ss) = s @ '','' @ join_comma (t # ss)"

fun String_js :: "'n platform \<Rightarrow> 'n jsval \<Rightarrow> string" where
  "String_js P JUndefined = ''undefined''"
| "String_js P JNull = ''null''"
| "String_js P (JBool b) = (if b then ''true'' else ''false'')"
| "String_js P (JNumber n) = num_string P n"
| "String_js P (JString s) = s"
| "String_js P (JArray xs) =
     join_comma (map (\<lambda>x. if x = JNull \<or> x = JUndefined then [] else String_js P x) xs)"
| "String_js P (JObject kvs) = ''[object Object]''"

text \<open>A number in a template literal: the decimal digits of a natural number.\<close>

definition digit_char :: "nat \<Rightarrow> char" where
  "digit_char d = ''0123456789'' ! d"

function string_of_nat :: "nat \<Rightarrow> string" where
  "string_of_nat n =
     (if n < 10 then [digit_char n] else string_of_nat (n div 10) @ [digit_char (n mod 10)])"
  by pat_completeness auto
termination
  by (relation "measure id") auto

declare string_of_nat.simps [simp del]

text \<open>\<^verbatim>\<open>s.includes(t)\<close>: \<open>t\<close> occurs in \<open>s\<close> as a contiguous run.\<close>

fun starts_with :: "string \<Rightarrow> string \<Rightarrow> bool" where
  "starts_with s [] = True"
| "starts_with [] (c # t) = False"
| "starts_with (d # s) (c # t) = (d = c \<and> starts_with s t)"

fun includes_str :: "string \<Rightarrow> string \<Rightarrow> bool" where
  "includes_str [] t = (t = [])"
| "includes_str (c # s) t = (starts_with (c # s) t \<or> includes_str s t)"

text \<open>
  \<^verbatim>\<open>s.trim()\<close> removes white space and line terminators at both ends. Of the code
  units below 256 these are TAB, LF, VT, FF, CR, SPACE and NO-BREAK SPACE.
\<close>

definition is_space :: "char \<Rightarrow> bool" where
  "is_space c = (c \<in> set [CHR 0x09, CHR 0x0A, CHR 0x0B, CHR 0x0C, CHR 0x0D, CHR 0x20, CHR 0xA0])"

definition trim :: "string \<Rightarrow> string" where
  "trim s = rev (dropWhile is_space (rev (dropWhile is_space s)))"

section \<open>HTTP responses\<close>

text \<open>
  A response as the service reads it: the status code, the status text and the body.
  \<^verbatim>\<open>res.ok\<close> is the Fetch standard's: the status is in the range 200 to 299.
\<close>

record response =
  status :: nat
  statusText :: string
  body :: string

definition ok :: "response \<Rightarrow> bool" where
  "ok res = (200 \<le> status res \<and> status res \<le> 299)"

text \<open>
  What \<^verbatim>\<open>handleResponse\<close> does with the body, in order: \<^verbatim>\<open>res.text()\<close>,
  \<^verbatim>\<open>JSON.parse\<close> of that text, \<^verbatim>\<open>res.json()\<close>.
\<close>

datatype body_op = ReadText | JsonParse | ReadJson

text \<open>\<^verbatim>\<open>jsonError.message || jsonError.error\<close>\<close>

definition raw_error :: "'n platform \<Rightarrow> 'n jsval \<Rightarrow> js_error + 'n jsval" where
  "raw_error P jsonError =
     (case get_prop P jsonError ''message'' of
        Inl e \<Rightarrow> Inl e
      | Inr m \<Rightarrow> if truthy P m then Inr m else get_prop P jsonError ''error'')"

text \<open>The \<^verbatim>\<open>catch\<close> block of the error path: the parse, or a property read, has thrown.\<close>

definition html_fallback :: "response \<Rightarrow> string \<Rightarrow> string" where
  "html_fallback res errorText =
     (if includes_str errorText ''<!DOCTYPE html>''
      then ''Error del servidor ('' @ string_of_nat (status res) @ '')''
      else errorText)"

text \<open>The text of the error, as it stands when the \<^verbatim>\<open>throw\<close> is reached.\<close>

definition error_text :: "'n platform \<Rightarrow> response \<Rightarrow> string" where
  "error_text P res =
     (let errorText = body res in
      case json_parse P errorText of
        Inl syntax_msg \<Rightarrow> html_fallback res errorText
      | Inr jsonError \<Rightarrow>
          (case raw_error P jsonError of
             Inl e \<Rightarrow> html_fallback res errorText
           | Inr rawError \<Rightarrow>
               if truthy P rawError then
                 (if typeof rawError = ''object'' then json_stringify P rawError
                  else String_js P rawError)
               else errorText))"

definition handleResponse :: "'n platform \<Rightarrow> response \<Rightarrow> (js_error + 'n jsval) \<times> body_op list" where
  "handleResponse P res =
     (if \<not> ok res then
        (let errorText = error_text P res in
         (Inl (JsError PlainError
            (if errorText \<noteq> [] then errorText
             else ''Error '' @ string_of_nat (status res) @ '': '' @ statusText res)),
          [ReadText, JsonParse]))
      else if status res = 204 then (Inr JNull, [])
      else
        (case json_parse P (body res) of
           Inl syntax_msg \<Rightarrow> (Inl (JsError SyntaxError syntax_msg), [ReadJson])
         | Inr json \<Rightarrow> (Inr json, [ReadJson])))"

section \<open>The task API facade\<close>

text \<open>
  A request as \<^verbatim>\<open>fetch\<close> receives it. \<open>req_method = None\<close> is a call that names no method
  (a GET). The network is a parameter \<open>fetch\<close>: it gives each request a response, or
  fails with a transport error. Every operation returns its result together with the
  requests it has issued, in order.
\<close>

record request =
  url :: string
  req_method :: "string option"
  headers :: "(string \<times> string) list"
  req_body :: "string option"

type_synonym network = "request \<Rightarrow> js_error + response"

text \<open>
  \<^verbatim>\<open>const API_URL = process.env.EXPO_PUBLIC_API_URL?.replace(/\/$/, "")\<close>, and its text
  inside a template literal (\<^verbatim>\<open>undefined\<close> when the variable is not set).
\<close>

definition strip_trailing_slash :: "string \<Rightarrow> string" where
  "strip_trailing_slash s = (if s \<noteq> [] \<and> last s = CHR ''/'' then butlast s else s)"

definition API_URL :: "'n platform \<Rightarrow> string option" where
  "API_URL P = map_option strip_trailing_slash (EXPO_PUBLIC_API_URL P)"

definition api_url_text :: "'n platform \<Rightarrow> string" where
  "api_url_text P = (case API_URL P of None \<Rightarrow> ''undefined'' | Some u \<Rightarrow> u)"

text \<open>\<^verbatim>\<open>obj.k = v\<close> on an object literal: replaces the value of \<open>k\<close>, or adds \<open>k\<close> last.\<close>

fun set_prop :: "(string \<times> 'v) list \<Rightarrow> string \<Rightarrow> 'v \<Rightarrow> (string \<times> 'v) list" where
  "set_prop [] k v = [(k, v)]"
| "set_prop ((k', v') # kvs) k v =
     (if k' = k then (k, v) # kvs else (k', v') # set_prop kvs k v)"

text \<open>\<^verbatim>\<open>throw new Error(error.message || fallback)\<close>\<close>

definition rethrow :: "js_error \<Rightarrow> string \<Rightarrow> js_error" where
  "rethrow e fallback = JsError PlainError (if message e \<noteq> [] then message e else fallback)"

subsection \<open>getTodos\<close>

definition getTodos :: "'n platform \<Rightarrow> network \<Rightarrow> string \<Rightarrow> (js_error + 'n jsval) \<times> request list" where
  "getTodos P fetch token =
     (let req = \<lparr>url = api_url_text P @ ''/todos'', req_method = None,
                 headers = [(''Authorization'', ''Bearer '' @ token)], req_body = None\<rparr>
      in case fetch req of
           Inl e \<Rightarrow> (Inl e, [req])
         | Inr res \<Rightarrow>
             (case fst (handleResponse P res) of
                Inl e \<Rightarrow> (Inl e, [req])
              | Inr json \<Rightarrow>
                  (case get_prop P json ''data'' of
                     Inl e \<Rightarrow> (Inl e, [req])
                   | Inr d \<Rightarrow>
                       if truthy P d \<and> isArray d then (Inr d, [req])
                       else if isArray json then (Inr json, [req])
                       else (Inr (JArray []), [req]))))"

subsection \<open>createTodo\<close>

text \<open>
  Modelled from the spec: the declaration of \<^verbatim>\<open>NewTaskData\<close> (\<^verbatim>\<open>src/types/todolist\<close>) is
  not among the sources. The spec gives it a title, an optional photo reference and an
  optional location of latitude, longitude and an optional capture time. The title is
  optional here because the code reads it with \<^verbatim>\<open>data.title?.trim()\<close>, and the photo
  reference is any value because the code tests its type.
\<close>

record 'n location_data =
  latitude :: 'n
  longitude :: 'n
  timestamp :: "'n option"

record 'n new_task_data =
  title :: "string option"
  photoUri :: "'n jsval"
  location :: "'n location_data option"

definition title_required :: string where
  "title_required = ''El t'' @ [CHR 0xED] @ ''tulo es obligatorio''"

definition json_headers :: "string \<Rightarrow> (string \<times> string) list" where
  "json_headers token =
     [(''Authorization'', ''Bearer '' @ token), (''Content-Type'', ''application/json''),
      (''Accept'', ''application/json'')]"

text \<open>Steps 2 to 4 of \<^verbatim>\<open>createTodo\<close>: the payload, for a title that passed step 1.\<close>

definition createTodo_payload ::
  "'n platform \<Rightarrow> string \<Rightarrow> 'n new_task_data \<Rightarrow> (string \<times> 'n jsval) list" where
  "createTodo_payload P t data =
     (let payload = [(''title'', JString (trim t))];
          payload = (case location data of
                       None \<Rightarrow> payload
                     | Some loc \<Rightarrow>
                         set_prop payload ''location''
                           (JObject [(''latitude'', JNumber (latitude loc)),
                                     (''longitude'', JNumber (longitude loc))]));
          payload = (if truthy P (photoUri data) \<and> typeof (photoUri data) = ''string''
                     then set_prop payload ''image'' (photoUri data) else payload)
      in payload)"

definition createTodo ::
  "'n platform \<Rightarrow> network \<Rightarrow> string \<Rightarrow> 'n new_task_data \<Rightarrow> (js_error + 'n jsval) \<times> request list" where
  "createTodo P fetch token data =
     (case title data of
        None \<Rightarrow> (Inl (JsError PlainError title_required), [])
      | Some t \<Rightarrow>
          if trim t = [] then (Inl (JsError PlainError title_required), [])
          else
            (let req = \<lparr>url = api_url_text P @ ''/todos'', req_method = Some ''POST'',
                        headers = json_headers token,
                        req_body = Some (json_stringify P (JObject (createTodo_payload P t data)))\<rparr>
             in case fetch req of
                  Inl e \<Rightarrow> (Inl (rethrow e ''Error al crear tarea''), [req])
                | Inr res \<Rightarrow>
                    (case fst (handleResponse P res) of
                       Inl e \<Rightarrow> (Inl (rethrow e ''Error al crear tarea''), [req])
                     | Inr json \<Rightarrow> (Inr json, [req]))))"

subsection \<open>updateTodo\<close>

text \<open>
  The \<^verbatim>\<open>data\<close> argument: a bare boolean (the legacy form) or an object of optional
  changes. \<open>None\<close> and \<open>JUndefined\<close> are \<^verbatim>\<open>undefined\<close>; the image is a string or
  \<^verbatim>\<open>null\<close>, the location is of type \<^verbatim>\<open>any\<close>.
\<close>

record 'n changes =
  ch_completed :: "bool option"
  ch_title :: "string option"
  ch_image :: "'n jsval"
  ch_location :: "'n jsval"

datatype 'n update_data = Legacy bool | Changes "'n changes"

definition updateTodo_payload ::
  "'n platform \<Rightarrow> 'n update_data \<Rightarrow> js_error + (string \<times> 'n jsval) list" where
  "updateTodo_payload P data =
     (case data of
        Legacy b \<Rightarrow> Inr [(''completed'', JBool b)]
      | Changes c \<Rightarrow>
          (let payload = [];
               payload = (case ch_title c of None \<Rightarrow> payload
                          | Some t \<Rightarrow> set_prop payload ''title'' (JString t));
               payload = (case ch_completed c of None \<Rightarrow> payload
                          | Some b \<Rightarrow> set_prop payload ''completed'' (JBool b));
               payload = (if ch_image c \<noteq> JUndefined
                          then set_prop payload ''image'' (ch_image c) else payload)
           in if truthy P (ch_location c) then
                (case get_prop P (ch_location c) ''latitude'' of
                   Inl e \<Rightarrow> Inl e
                 | Inr lat \<Rightarrow>
                     (case get_prop P (ch_location c) ''longitude'' of
                        Inl e \<Rightarrow> Inl e
                      | Inr lon \<Rightarrow>
                          Inr (set_prop payload ''location''
                                 (JObject [(''latitude'', lat), (''longitude'', lon)]))))
              else Inr payload))"

definition updateTodo ::
  "'n platform \<Rightarrow> network \<Rightarrow> string \<Rightarrow> string \<Rightarrow> 'n update_data \<Rightarrow>
   (js_error + 'n jsval) \<times> request list" where
  "updateTodo P fetch ident token data =
     (case updateTodo_payload P data of
        Inl e \<Rightarrow> (Inl (rethrow e ''Error al actualizar tarea''), [])
      | Inr payload \<Rightarrow>
          (let req = \<lparr>url = api_url_text P @ ''/todos/'' @ ident, req_method = Some ''PATCH'',
                      headers = [(''Authorization'', ''Bearer '' @ token),
                                 (''Content-Type'', ''application/json'')],
                      req_body = Some (json_stringify P (JObject payload))\<rparr>
           in case fetch req of
                Inl e \<Rightarrow> (Inl (rethrow e ''Error al actualizar tarea''), [req])
              | Inr res \<Rightarrow>
                  (case fst (handleResponse P res) of
                     Inl e \<Rightarrow> (Inl (rethrow e ''Error al actualizar tarea''), [req])
                   | Inr json \<Rightarrow> (Inr json, [req]))))"

subsection \<open>deleteTodo\<close>

text \<open>The promise resolves with no value: \<open>Inr ()\<close>.\<close>

definition deleteTodo ::
  "'n platform \<Rightarrow> network \<Rightarrow> string \<Rightarrow> string \<Rightarrow> (js_error + unit) \<times> request list" where
  "deleteTodo P fetch ident token =
     (let req = \<lparr>url = api_url_text P @ ''/todos/'' @ ident, req_method = Some ''DELETE'',
                 headers = [(''Authorization'', ''Bearer '' @ token)], req_body = None\<rparr>
      in case fetch req of
           Inl e \<Rightarrow> (Inl (rethrow e ''Error al eliminar tarea''), [req])
         | Inr res \<Rightarrow>
             (case fst (handleResponse P res) of
                Inl e \<Rightarrow> (Inl (rethrow e ''Error al eliminar tarea''), [req])
              | Inr json \<Rightarrow> (Inr (), [req])))"

section \<open>The list screen's toggle handler\<close>

text \<open>
  \<^verbatim>\<open>handleToggle\<close> of \<^verbatim>\<open>app/home/todo-list/index.tsx\<close>. A task is a record with at least an
  identifier, a title and the completed flag; the spread \<^verbatim>\<open>{ ...t, completed: v }\<close> is a
  record update, which keeps every other field. The handler reads \<open>tasks\<close>, the list its
  render captured, and \<open>prev\<close>, the state the updater function receives. What it does is
  a list of events in the order they happen.
\<close>

record task =
  task_id :: string
  task_title :: string
  task_completed :: bool

datatype 'a ui_event =
    SetTasks "'a task_scheme list"
  | Sent request
  | ConsoleError js_error
  | Alert string string

definition toggled :: "string \<Rightarrow> bool \<Rightarrow> 'a task_scheme list \<Rightarrow> 'a task_scheme list" where
  "toggled ident currentStatus prev =
     map (\<lambda>t. if task_id t = ident then t\<lparr>task_completed := \<not> currentStatus\<rparr> else t) prev"

definition handleToggle ::
  "'n platform \<Rightarrow> network \<Rightarrow> string option \<Rightarrow> 'a task_scheme list \<Rightarrow> 'a task_scheme list \<Rightarrow>
   string \<Rightarrow> bool \<Rightarrow> 'a ui_event list" where
  "handleToggle P fetch token tasks prev ident currentStatus =
     (case token of
        None \<Rightarrow> []
      | Some tok \<Rightarrow>
          if tok = [] then []
          else
            (let previousTasks = tasks;
                 (r, reqs) = updateTodo P fetch ident tok (Legacy (\<not> currentStatus))
             in SetTasks (toggled ident currentStatus prev) # map Sent reqs @
                (case r of
                   Inr updated \<Rightarrow> []
                 | Inl e \<Rightarrow>
                     [ConsoleError e, SetTasks previousTasks,
                      Alert ''Error'' ''No se pudo actualizar la tarea''])))"

text \<open>The task list after a run of events, from the list \<open>s\<close> before it.\<close>

fun tasks_after :: "'a task_scheme list \<Rightarrow> 'a ui_event list \<Rightarrow> 'a task_scheme list" where
  "tasks_after s [] = s"
| "tasks_after s (SetTasks s' # es) = tasks_after s' es"
| "tasks_after s (e # es) = tasks_after s es"

section \<open>A sample platform and sample networks\<close>

text \<open>
  The theorems below hold for every platform and every network. Their instances at
  concrete inputs need a concrete platform: \<open>sample_platform\<close> knows
  \<^verbatim>\<open>JSON.parse\<close> and \<^verbatim>\<open>JSON.stringify\<close> on the texts and values listed in
  \<open>sample_json\<close>, each pair being a JSON text and the value it denotes, and is used on
  no others.
\<close>

definition sample_json :: "(string \<times> int jsval) list" where
  \<open>sample_json =
     [(''{"message":""}'', JObject [(''message'', JString '''')]),
      (''{"message":"Not found"}'', JObject [(''message'', JString ''Not found'')]),
      (''{"error":{"code":7}}'', JObject [(''error'', JObject [(''code'', JNumber 7)])]),
      (''{"code":7}'', JObject [(''code'', JNumber 7)]),
      (''{"completed":true}'', JObject [(''completed'', JBool True)]),
      (''{"title":"Buy milk"}'', JObject [(''title'', JString ''Buy milk'')]),
      (''{"title":"  x  "}'', JObject [(''title'', JString ''  x  '')]),
      (''{"title":"x"}'', JObject [(''title'', JString ''x'')]),
      (''null'', JNull)]\<close>

definition sample_parse :: "string \<Rightarrow> string + int jsval" where
  "sample_parse s =
     (case map_of sample_json s of None \<Rightarrow> Inl ''Unexpected token'' | Some v \<Rightarrow> Inr v)"

definition sample_stringify :: "int jsval \<Rightarrow> string" where
  "sample_stringify v =
     (case map_of (map (\<lambda>(s, w). (w, s)) sample_json) v of None \<Rightarrow> ''null'' | Some s \<Rightarrow> s)"

definition sample_platform :: "int platform" where
  "sample_platform =
     \<lparr>json_parse = sample_parse,
      json_stringify = sample_stringify,
      num_string = (\<lambda>n. if n < 0 then ''-'' @ string_of_nat (nat (- n)) else string_of_nat (nat n)),
      num_truthy = (\<lambda>n. n \<noteq> 0),
      null_prop_msg = (\<lambda>k. ''Cannot read properties of null (reading '' @ k @ '')''),
      EXPO_PUBLIC_API_URL = Some ''https://api.example.com/''\<rparr>"

definition no_content_network :: network where
  "no_content_network req = Inr \<lparr>status = 204, statusText = ''No Content'', body = []\<rparr>"

definition null_body_network :: network where
  "null_body_network req = Inr \<lparr>status = 200, statusText = ''OK'', body = ''null''\<rparr>"

definition failing_network :: network where
  "failing_network req = Inl (JsError TypeError ''Network request failed'')"

definition sample_tasks :: "task list" where
  "sample_tasks =
     [\<lparr>task_id = ''1'', task_title = ''Buy milk'', task_completed = False\<rparr>,
      \<lparr>task_id = ''2'', task_title = ''Call home'', task_completed = True\<rparr>]"

lemmas sample_defs = sample_platform_def sample_parse_def sample_stringify_def sample_json_def

section \<open>Properties of the error mapper and the response normalizer\<close>

lemma get_prop_truthy: "truthy P v \<Longrightarrow> \<exists>w. get_prop P v k = Inr w"
  by (cases v) simp_all

lemma get_prop_object:
  "get_prop P (JObject kvs) k = Inr (case map_of kvs k of None \<Rightarrow> JUndefined | Some v \<Rightarrow> v)"
  by simp

lemma raw_error_object:
  assumes "map_of kvs ''message'' = Some v \<and> truthy P v \<or>
           (\<forall>m. map_of kvs ''message'' = Some m \<longrightarrow> \<not> truthy P m) \<and>
           map_of kvs ''error'' = Some v \<and> truthy P v"
  shows "raw_error P (JObject kvs) = Inr v"
  using assms by (auto simp: raw_error_def split: option.splits)

text \<open>
  C1, as the code has it. For a non-2xx response whose body parses to a JSON object, let
  \<open>v\<close> be the value of the \<^verbatim>\<open>message\<close> field when that value is truthy, and
  otherwise the value of the \<^verbatim>\<open>error\<close> field when that one is truthy. Then the error
  thrown by \<^verbatim>\<open>handleResponse\<close> carries \<open>v\<close> itself when \<open>v\<close> is a string, the
  JSON text of \<open>v\<close> when \<open>v\<close> is an object or an array, and \<^verbatim>\<open>String(v)\<close> when \<open>v\<close> is
  a number or \<^verbatim>\<open>true\<close> (these two texts are never empty in JavaScript).
\<close>

theorem handleResponse_error_field:
  assumes "\<not> ok res"
    and "json_parse P (body res) = Inr (JObject kvs)"
    and "map_of kvs ''message'' = Some v \<and> truthy P v \<or>
         (\<forall>m. map_of kvs ''message'' = Some m \<longrightarrow> \<not> truthy P m) \<and>
         map_of kvs ''error'' = Some v \<and> truthy P v"
  shows "(\<forall>s. v = JString s \<longrightarrow> fst (handleResponse P res) = Inl (JsError PlainError s)) \<and>
         (typeof v = ''object'' \<and> json_stringify P v \<noteq> [] \<longrightarrow>
            fst (handleResponse P res) = Inl (JsError PlainError (json_stringify P v))) \<and>
         (typeof v \<noteq> ''object'' \<and> String_js P v \<noteq> [] \<longrightarrow>
            fst (handleResponse P res) = Inl (JsError PlainError (String_js P v)))"
proof -
  have raw: "raw_error P (JObject kvs) = Inr v"
    using assms(3) by (rule raw_error_object)
  have tr: "truthy P v"
    using assms(3) by blast
  have etxt: "error_text P res =
      (if typeof v = ''object'' then json_stringify P v else String_js P v)"
    using assms(2) raw tr by (simp add: error_text_def)
  have thrown: "fst (handleResponse P res) =
      Inl (JsError PlainError (if error_text P res \<noteq> [] then error_text P res
         else ''Error '' @ string_of_nat (status res) @ '': '' @ statusText res))"
    using assms(1) by (simp add: handleResponse_def Let_def)
  show ?thesis
    using tr by (auto simp: thrown etxt)
qed

theorem handleResponse_error_field_witness:
  \<open>fst (handleResponse sample_platform
          \<lparr>status = 404, statusText = ''Not Found'', body = ''{"message":"Not found"}''\<rparr>)
     = Inl (JsError PlainError ''Not found'') \<and>
   fst (handleResponse sample_platform
          \<lparr>status = 422, statusText = ''Unprocessable Entity'', body = ''{"error":{"code":7}}''\<rparr>)
     = Inl (JsError PlainError ''{"code":7}'')\<close>
proof -
  have a: \<open>fst (handleResponse sample_platform
          \<lparr>status = 404, statusText = ''Not Found'', body = ''{"message":"Not found"}''\<rparr>)
     = Inl (JsError PlainError ''Not found'')\<close>
    using handleResponse_error_field
      [of "\<lparr>status = 404, statusText = ''Not Found'', body = ''{\"message\":\"Not found\"}''\<rparr>"
          sample_platform "[(''message'', JString ''Not found'')]" "JString ''Not found''"]
    by (simp add: ok_def sample_defs)
  have b: \<open>fst (handleResponse sample_platform
          \<lparr>status = 422, statusText = ''Unprocessable Entity'', body = ''{"error":{"code":7}}''\<rparr>)
     = Inl (JsError PlainError ''{"code":7}'')\<close>
    using handleResponse_error_field
      [of "\<lparr>status = 422, statusText = ''Unprocessable Entity'', body = ''{\"error\":{\"code\":7}}''\<rparr>"
          sample_platform "[(''error'', JObject [(''code'', JNumber 7)])]" "JObject [(''code'', JNumber 7)]"]
    by (simp add: ok_def sample_defs)
  show ?thesis using a b by simp
qed

text \<open>
  C1 as stated ("contains a \<^verbatim>\<open>message\<close> or \<^verbatim>\<open>error\<close> field") fails for a field whose
  value is falsy: the body \<^verbatim>\<open>{"message":""}\<close> parses, has a \<^verbatim>\<open>message\<close> field with the
  string value \<^verbatim>\<open>""\<close>, and the error thrown carries the whole body text instead.
\<close>

theorem handleResponse_empty_message_counterexample:
  \<open>\<not> ok \<lparr>status = 400, statusText = ''Bad Request'', body = ''{"message":""}''\<rparr> \<and>
   json_parse sample_platform ''{"message":""}'' = Inr (JObject [(''message'', JString '''')]) \<and>
   fst (handleResponse sample_platform
          \<lparr>status = 400, statusText = ''Bad Request'', body = ''{"message":""}''\<rparr>)
     = Inl (JsError PlainError ''{"message":""}'') \<and>
   fst (handleResponse sample_platform
          \<lparr>status = 400, statusText = ''Bad Request'', body = ''{"message":""}''\<rparr>)
     \<noteq> Inl (JsError PlainError '''')\<close>
  by (simp add: handleResponse_def ok_def error_text_def raw_error_def sample_defs)

lemma handleResponse_no_field_raw_body:
  assumes "\<not> ok res" and "json_parse P (body res) = Inr j" and "raw_error P j = Inr v"
    and "\<not> truthy P v" and "body res \<noteq> []"
  shows "fst (handleResponse P res) = Inl (JsError PlainError (body res))"
  using assms by (simp add: handleResponse_def error_text_def Let_def)

text \<open>
  C8, as the code has it. The text of the error is empty when the \<^verbatim>\<open>throw\<close> is reached
  only for an empty body (\<^verbatim>\<open>JSON.parse\<close> rejects the empty text); a non-empty body from
  which no field is extracted is itself the message (\<open>handleResponse_no_field_raw_body\<close>).
  For a non-2xx response with an empty body the error thrown carries
  \<^verbatim>\<open>Error <status>: <status text>\<close>.
\<close>

theorem handleResponse_empty_body:
  assumes "\<not> ok res" and "body res = []" and "json_parse P [] = Inl syntax_msg"
  shows "fst (handleResponse P res) =
           Inl (JsError PlainError
                  (''Error '' @ string_of_nat (status res) @ '': '' @ statusText res))"
  using assms by (simp add: handleResponse_def error_text_def html_fallback_def Let_def)

theorem handleResponse_empty_body_witness:
  "fst (handleResponse sample_platform
          \<lparr>status = 500, statusText = ''Internal Server Error'', body = []\<rparr>)
     = Inl (JsError PlainError ''Error 500: Internal Server Error'')"
  using handleResponse_empty_body
    [of "\<lparr>status = 500, statusText = ''Internal Server Error'', body = []\<rparr>"
        sample_platform "''Unexpected token''"]
  by (simp add: ok_def sample_defs string_of_nat.simps digit_char_def)

text \<open>
  C8 as stated gives the text \<^verbatim>\<open><status>: <status text>\<close>; the code puts \<^verbatim>\<open>Error \<close> before
  it. For status 500 with an empty body the text is \<^verbatim>\<open>Error 500: Internal Server Error\<close>.
\<close>

theorem handleResponse_fallback_counterexample:
  "\<not> ok \<lparr>status = 500, statusText = ''Internal Server Error'', body = []\<rparr> \<and>
   fst (handleResponse sample_platform
          \<lparr>status = 500, statusText = ''Internal Server Error'', body = []\<rparr>)
     = Inl (JsError PlainError ''Error 500: Internal Server Error'') \<and>
   fst (handleResponse sample_platform
          \<lparr>status = 500, statusText = ''Internal Server Error'', body = []\<rparr>)
     \<noteq> Inl (JsError PlainError ''500: Internal Server Error'')"
  by (simp add: handleResponse_def ok_def error_text_def html_fallback_def sample_defs
      string_of_nat.simps digit_char_def)

section \<open>Properties of the facade\<close>

lemma updateTodo_payload_total: "\<exists>payload. updateTodo_payload P data = Inr payload"
proof (cases data)
  case (Legacy b)
  then show ?thesis by (simp add: updateTodo_payload_def)
next
  case (Changes c)
  show ?thesis
  proof (cases "truthy P (ch_location c)")
    case True
    obtain lat where lat: "get_prop P (ch_location c) ''latitude'' = Inr lat"
      using get_prop_truthy [OF True] by blast
    obtain lon where lon: "get_prop P (ch_location c) ''longitude'' = Inr lon"
      using get_prop_truthy [OF True] by blast
    show ?thesis
      using Changes True lat lon by (simp add: updateTodo_payload_def Let_def)
  next
    case False
    then show ?thesis
      using Changes by (simp add: updateTodo_payload_def Let_def)
  qed
qed

lemma handleResponse_204: "status res = 204 \<Longrightarrow> handleResponse P res = (Inr JNull, [])"
  by (simp add: handleResponse_def ok_def)

text \<open>
  C2, as the code has it. For a response with status 204 \<^verbatim>\<open>handleResponse\<close> returns
  \<^verbatim>\<open>null\<close> and touches the body in no way, whatever \<^verbatim>\<open>JSON.parse\<close> would do with it.
  When the network answers every request with such a response, \<^verbatim>\<open>updateTodo\<close> resolves to
  \<^verbatim>\<open>null\<close>, \<^verbatim>\<open>deleteTodo\<close> resolves with no value, and \<^verbatim>\<open>createTodo\<close> with a title that
  is not blank resolves to \<^verbatim>\<open>null\<close>.
\<close>

theorem no_content_resolves_to_null:
  assumes "status res = 204" and "\<forall>req. fetch req = Inr res"
  shows "handleResponse P res = (Inr JNull, []) \<and>
         fst (updateTodo P fetch ident token data) = Inr JNull \<and>
         fst (deleteTodo P fetch ident token) = Inr () \<and>
         (\<forall>t. title d = Some t \<and> trim t \<noteq> [] \<longrightarrow> fst (createTodo P fetch token d) = Inr JNull)"
proof -
  have h: "handleResponse P res = (Inr JNull, [])"
    using assms(1) by (rule handleResponse_204)
  obtain payload where p: "updateTodo_payload P data = Inr payload"
    using updateTodo_payload_total by blast
  have u: "fst (updateTodo P fetch ident token data) = Inr JNull"
    using assms(2) h p by (simp add: updateTodo_def Let_def)
  have d: "fst (deleteTodo P fetch ident token) = Inr ()"
    using assms(2) h by (simp add: deleteTodo_def Let_def)
  have c: "\<forall>t. title d = Some t \<and> trim t \<noteq> [] \<longrightarrow> fst (createTodo P fetch token d) = Inr JNull"
    using assms(2) h by (simp add: createTodo_def Let_def)
  show ?thesis using h u d c by blast
qed

theorem no_content_resolves_to_null_witness:
  \<open>handleResponse sample_platform \<lparr>status = 204, statusText = ''No Content'', body = []\<rparr>
     = (Inr JNull, []) \<and>
   fst (updateTodo sample_platform no_content_network ''7'' ''tok'' (Legacy True)) = Inr JNull \<and>
   fst (deleteTodo sample_platform no_content_network ''7'' ''tok'') = Inr () \<and>
   fst (createTodo sample_platform no_content_network ''tok''
          \<lparr>title = Some ''  Buy milk  '', photoUri = JUndefined, location = None\<rparr>) = Inr JNull\<close>
proof -
  have t: "trim ''  Buy milk  '' \<noteq> []"
    by (simp add: trim_def is_space_def)
  show ?thesis
    using no_content_resolves_to_null
      [of "\<lparr>status = 204, statusText = ''No Content'', body = []\<rparr>" no_content_network
          sample_platform "''7''" "''tok''" "Legacy True"
          "\<lparr>title = Some ''  Buy milk  '', photoUri = JUndefined, location = None\<rparr>"] t
    by (simp add: no_content_network_def)
qed

text \<open>
  C2 as stated speaks of any facade operation. \<^verbatim>\<open>getTodos\<close> is one, and on a 204 it does
  not resolve: it reads \<^verbatim>\<open>json.data\<close> of the \<^verbatim>\<open>null\<close> it got and rejects with the
  TypeError of that read.
\<close>

theorem getTodos_no_content_counterexample:
  "no_content_network \<lparr>url = ''https://api.example.com/todos'', req_method = None,
       headers = [(''Authorization'', ''Bearer tok'')], req_body = None\<rparr>
     = Inr \<lparr>status = 204, statusText = ''No Content'', body = []\<rparr> \<and>
   getTodos sample_platform no_content_network ''tok''
     = (Inl (JsError TypeError ''Cannot read properties of null (reading data)''),
        [\<lparr>url = ''https://api.example.com/todos'', req_method = None,
          headers = [(''Authorization'', ''Bearer tok'')], req_body = None\<rparr>])"
  by (simp add: getTodos_def no_content_network_def handleResponse_def ok_def
      sample_platform_def api_url_text_def API_URL_def strip_trailing_slash_def)

subsection \<open>getTodos\<close>

text \<open>
  What \<^verbatim>\<open>getTodos\<close> returns for a 2xx response other than 204 whose body parses, and the
  shapes it accepts: the envelope \<^verbatim>\<open>{ data: ts }\<close> and the bare array \<open>ts\<close> give the same
  list, and any other value that is not \<^verbatim>\<open>null\<close> gives the empty list.
\<close>

lemma getTodos_json:
  assumes "\<forall>req. fetch req = Inr res" and "ok res" and "status res \<noteq> 204"
    and "json_parse P (body res) = Inr json"
  shows "fst (getTodos P fetch token) =
           (case get_prop P json ''data'' of
              Inl e \<Rightarrow> Inl e
            | Inr d \<Rightarrow>
                if truthy P d \<and> isArray d then Inr d
                else if isArray json then Inr json else Inr (JArray []))"
  using assms by (simp add: getTodos_def handleResponse_def Let_def split: sum.splits)

lemma getTodos_envelope:
  assumes "\<forall>req. fetch req = Inr res" and "ok res" and "status res \<noteq> 204"
    and "json_parse P (body res) = Inr (JObject kvs)" and "map_of kvs ''data'' = Some (JArray ts)"
  shows "fst (getTodos P fetch token) = Inr (JArray ts)"
  using getTodos_json [OF assms(1-4)] assms(5) by simp

lemma getTodos_bare_array:
  assumes "\<forall>req. fetch req = Inr res" and "ok res" and "status res \<noteq> 204"
    and "json_parse P (body res) = Inr (JArray ts)"
  shows "fst (getTodos P fetch token) = Inr (JArray ts)"
  using getTodos_json [OF assms(1-4)] by simp

lemma getTodos_other_shape:
  assumes "\<forall>req. fetch req = Inr res" and "ok res" and "status res \<noteq> 204"
    and "json_parse P (body res) = Inr json"
    and "json \<noteq> JNull" and "json \<noteq> JUndefined" and "\<not> isArray json"
    and "\<forall>kvs. json = JObject kvs \<longrightarrow> (\<forall>d. map_of kvs ''data'' = Some d \<longrightarrow> \<not> isArray d)"
  shows "fst (getTodos P fetch token) = Inr (JArray [])"
  using getTodos_json [OF assms(1-4)] assms(5-8)
  by (cases json) (auto split: option.splits)

lemma getTodos_null:
  assumes "\<forall>req. fetch req = Inr res" and "ok res" and "status res \<noteq> 204"
    and "json_parse P (body res) = Inr JNull"
  shows "fst (getTodos P fetch token) = Inl (JsError TypeError (null_prop_msg P ''data''))"
  using getTodos_json [OF assms(1-4)] by simp

text \<open>
  C6 at the input where the code leaves it: a 200 response whose body is the JSON text
  \<^verbatim>\<open>null\<close>. The claim has \<^verbatim>\<open>getTodos\<close> return the empty list for every 2xx shape that is
  neither the envelope nor an array; here it rejects with a TypeError, because
  \<^verbatim>\<open>json.data\<close> is read before any test of \<open>json\<close>.
\<close>

theorem getTodos_null_body:
  "null_body_network \<lparr>url = ''https://api.example.com/todos'', req_method = None,
       headers = [(''Authorization'', ''Bearer tok'')], req_body = None\<rparr>
     = Inr \<lparr>status = 200, statusText = ''OK'', body = ''null''\<rparr> \<and>
   json_parse sample_platform ''null'' = Inr JNull \<and>
   fst (getTodos sample_platform null_body_network ''tok'')
     = Inl (JsError TypeError ''Cannot read properties of null (reading data)'')"
  by (simp add: getTodos_def null_body_network_def handleResponse_def ok_def
      sample_defs api_url_text_def API_URL_def strip_trailing_slash_def)

subsection \<open>createTodo\<close>

lemma trim_empty_iff: "trim s = [] \<longleftrightarrow> (\<forall>c\<in>set s. is_space c)"
proof
  assume "trim s = []"
  then have all: "\<forall>c\<in>set (dropWhile is_space s). is_space c"
    by (simp add: trim_def dropWhile_eq_Nil_conv)
  have "dropWhile is_space s = []"
  proof (rule ccontr)
    assume ne: "dropWhile is_space s \<noteq> []"
    then have "\<not> is_space (hd (dropWhile is_space s))"
      by (rule hd_dropWhile)
    moreover have "hd (dropWhile is_space s) \<in> set (dropWhile is_space s)"
      using ne by simp
    ultimately show False using all by blast
  qed
  then show "\<forall>c\<in>set s. is_space c"
    by (simp add: dropWhile_eq_Nil_conv)
next
  assume "\<forall>c\<in>set s. is_space c"
  then have "dropWhile is_space s = []"
    by (simp add: dropWhile_eq_Nil_conv)
  then show "trim s = []"
    unfolding trim_def by (simp del: dropWhile_eq_Nil_conv)
qed

lemma createTodo_absent_title:
  "title d = None \<Longrightarrow> createTodo P fetch token d = (Inl (JsError PlainError title_required), [])"
  by (simp add: createTodo_def)

text \<open>
  C3. When every character of the title is white space (the empty title included),
  \<^verbatim>\<open>createTodo\<close> fails with the validation error and has issued no request, whatever the
  network is.
\<close>

theorem createTodo_blank_title:
  assumes "title d = Some t" and "\<forall>c\<in>set t. is_space c"
  shows "createTodo P fetch token d = (Inl (JsError PlainError title_required), [])"
proof -
  have "trim t = []"
    using assms(2) by (simp add: trim_empty_iff)
  then show ?thesis
    using assms(1) by (simp add: createTodo_def)
qed

theorem createTodo_blank_title_witness:
  "createTodo sample_platform no_content_network ''tok''
     \<lparr>title = Some [CHR 0x20, CHR 0x09, CHR 0x20], photoUri = JUndefined, location = None\<rparr>
     = (Inl (JsError PlainError title_required), []) \<and>
   createTodo sample_platform no_content_network ''tok''
     \<lparr>title = Some [], photoUri = JUndefined, location = None\<rparr>
     = (Inl (JsError PlainError title_required), [])"
  using createTodo_blank_title
    [of "\<lparr>title = Some [CHR 0x20, CHR 0x09, CHR 0x20], photoUri = JUndefined, location = None\<rparr>"
        "[CHR 0x20, CHR 0x09, CHR 0x20]" sample_platform no_content_network "''tok''"]
    createTodo_blank_title
    [of "\<lparr>title = Some [], photoUri = JUndefined, location = None\<rparr>"
        "[]" sample_platform no_content_network "''tok''"]
  by (simp add: is_space_def)

lemma nonempty_string_iff:
  "truthy P v \<and> typeof v = ''string'' \<longleftrightarrow> (\<exists>s. v = JString s \<and> s \<noteq> [])"
  by (cases v) auto

lemma createTodo_payload_eq:
  "createTodo_payload P t d =
     [(''title'', JString (trim t))] @
     (case location d of
        None \<Rightarrow> []
      | Some loc \<Rightarrow> [(''location'', JObject [(''latitude'', JNumber (latitude loc)),
                                              (''longitude'', JNumber (longitude loc))])]) @
     (if truthy P (photoUri d) \<and> typeof (photoUri d) = ''string''
      then [(''image'', photoUri d)] else [])"
  by (simp add: createTodo_payload_def Let_def split: option.splits)

lemma createTodo_request:
  assumes "title d = Some t" and "trim t \<noteq> []"
  shows "snd (createTodo P fetch token d) =
           [\<lparr>url = api_url_text P @ ''/todos'', req_method = Some ''POST'',
             headers = json_headers token,
             req_body = Some (json_stringify P (JObject (createTodo_payload P t d)))\<rparr>]"
  using assms by (simp add: createTodo_def Let_def split: sum.splits)

text \<open>
  C7. For a title that is not blank, \<^verbatim>\<open>createTodo\<close> issues one POST whose body is the JSON
  text of the payload. The payload holds the trimmed title; it has the key
  \<^verbatim>\<open>location\<close> exactly when a location was supplied, and the value is then the object of
  the latitude and the longitude alone; it has the key \<^verbatim>\<open>image\<close> exactly when the
  photo reference is a non-empty string, which is then the value; it has no other key.
  With no location and no such photo reference the payload is the title alone.
\<close>

theorem createTodo_payload_shape:
  assumes "title d = Some t" and "trim t \<noteq> []" and "payload = createTodo_payload P t d"
  shows "snd (createTodo P fetch token d) =
           [\<lparr>url = api_url_text P @ ''/todos'', req_method = Some ''POST'',
             headers = json_headers token,
             req_body = Some (json_stringify P (JObject payload))\<rparr>] \<and>
         map_of payload ''title'' = Some (JString (trim t)) \<and>
         (''location'' \<in> fst ` set payload \<longleftrightarrow> location d \<noteq> None) \<and>
         (\<forall>loc. location d = Some loc \<longrightarrow>
            map_of payload ''location'' =
              Some (JObject [(''latitude'', JNumber (latitude loc)),
                             (''longitude'', JNumber (longitude loc))])) \<and>
         (''image'' \<in> fst ` set payload \<longleftrightarrow> (\<exists>s. photoUri d = JString s \<and> s \<noteq> [])) \<and>
         (\<forall>s. photoUri d = JString s \<and> s \<noteq> [] \<longrightarrow> map_of payload ''image'' = Some (JString s)) \<and>
         fst ` set payload \<subseteq> {''title'', ''location'', ''image''} \<and>
         (location d = None \<and> \<not> (\<exists>s. photoUri d = JString s \<and> s \<noteq> []) \<longrightarrow>
            payload = [(''title'', JString (trim t))])"
proof -
  have req: "snd (createTodo P fetch token d) =
           [\<lparr>url = api_url_text P @ ''/todos'', req_method = Some ''POST'',
             headers = json_headers token,
             req_body = Some (json_stringify P (JObject payload))\<rparr>]"
    using createTodo_request [OF assms(1) assms(2)] assms(3) by simp
  have img: "truthy P (photoUri d) \<and> typeof (photoUri d) = ''string''
               \<longleftrightarrow> (\<exists>s. photoUri d = JString s \<and> s \<noteq> [])"
    by (rule nonempty_string_iff)
  have p: "payload =
     [(''title'', JString (trim t))] @
     (case location d of
        None \<Rightarrow> []
      | Some loc \<Rightarrow> [(''location'', JObject [(''latitude'', JNumber (latitude loc)),
                                              (''longitude'', JNumber (longitude loc))])]) @
     (if \<exists>s. photoUri d = JString s \<and> s \<noteq> [] then [(''image'', photoUri d)] else [])"
    unfolding assms(3) createTodo_payload_eq img ..
  have rest: "map_of payload ''title'' = Some (JString (trim t)) \<and>
         (''location'' \<in> fst ` set payload \<longleftrightarrow> location d \<noteq> None) \<and>
         (\<forall>loc. location d = Some loc \<longrightarrow>
            map_of payload ''location'' =
              Some (JObject [(''latitude'', JNumber (latitude loc)),
                             (''longitude'', JNumber (longitude loc))])) \<and>
         (''image'' \<in> fst ` set payload \<longleftrightarrow> (\<exists>s. photoUri d = JString s \<and> s \<noteq> [])) \<and>
         (\<forall>s. photoUri d = JString s \<and> s \<noteq> [] \<longrightarrow> map_of payload ''image'' = Some (JString s)) \<and>
         fst ` set payload \<subseteq> {''title'', ''location'', ''image''} \<and>
         (location d = None \<and> \<not> (\<exists>s. photoUri d = JString s \<and> s \<noteq> []) \<longrightarrow>
            payload = [(''title'', JString (trim t))])"
    unfolding p by (cases "location d") auto
  show ?thesis using req rest by blast
qed

theorem createTodo_payload_shape_witness:
  \<open>snd (createTodo sample_platform no_content_network ''tok''
          \<lparr>title = Some ''  Buy milk  '', photoUri = JUndefined, location = None\<rparr>) =
     [\<lparr>url = ''https://api.example.com/todos'', req_method = Some ''POST'',
       headers = [(''Authorization'', ''Bearer tok''), (''Content-Type'', ''application/json''),
                  (''Accept'', ''application/json'')],
       req_body = Some ''{"title":"Buy milk"}''\<rparr>] \<and>
   createTodo_payload sample_platform ''  Buy milk  ''
     \<lparr>title = Some ''  Buy milk  '', photoUri = JUndefined, location = None\<rparr>
     = [(''title'', JString ''Buy milk'')] \<and>
   map_of (createTodo_payload sample_platform ''Buy milk''
     \<lparr>title = Some ''Buy milk'', photoUri = JString ''https://picsum.photos/200'',
       location = Some \<lparr>latitude = - 33, longitude = - 70, timestamp = Some 1700000000\<rparr>\<rparr>)
     ''location'' = Some (JObject [(''latitude'', JNumber (- 33)), (''longitude'', JNumber (- 70))])\<close>
proof -
  have t: "trim ''  Buy milk  '' = ''Buy milk''"
    by (simp add: trim_def is_space_def)
  have t': "trim ''Buy milk'' = ''Buy milk''"
    by (simp add: trim_def is_space_def)
  have a: \<open>snd (createTodo sample_platform no_content_network ''tok''
          \<lparr>title = Some ''  Buy milk  '', photoUri = JUndefined, location = None\<rparr>) =
     [\<lparr>url = ''https://api.example.com/todos'', req_method = Some ''POST'',
       headers = [(''Authorization'', ''Bearer tok''), (''Content-Type'', ''application/json''),
                  (''Accept'', ''application/json'')],
       req_body = Some ''{"title":"Buy milk"}''\<rparr>] \<and>
   createTodo_payload sample_platform ''  Buy milk  ''
     \<lparr>title = Some ''  Buy milk  '', photoUri = JUndefined, location = None\<rparr>
     = [(''title'', JString ''Buy milk'')]\<close>
    using createTodo_payload_shape
      [of "\<lparr>title = Some ''  Buy milk  '', photoUri = JUndefined, location = None\<rparr>"
          "''  Buy milk  ''"
          "createTodo_payload sample_platform ''  Buy milk  ''
             \<lparr>title = Some ''  Buy milk  '', photoUri = JUndefined, location = None\<rparr>"
          sample_platform no_content_network "''tok''"]
    by (simp add: t sample_defs json_headers_def api_url_text_def API_URL_def
        strip_trailing_slash_def)
  have b: "map_of (createTodo_payload sample_platform ''Buy milk''
     \<lparr>title = Some ''Buy milk'', photoUri = JString ''https://picsum.photos/200'',
       location = Some \<lparr>latitude = - 33, longitude = - 70, timestamp = Some 1700000000\<rparr>\<rparr>)
     ''location'' = Some (JObject [(''latitude'', JNumber (- 33)), (''longitude'', JNumber (- 70))])"
    using createTodo_payload_shape
      [of "\<lparr>title = Some ''Buy milk'', photoUri = JString ''https://picsum.photos/200'',
            location = Some \<lparr>latitude = - 33, longitude = - 70, timestamp = Some 1700000000\<rparr>\<rparr>"
          "''Buy milk''"
          "createTodo_payload sample_platform ''Buy milk''
             \<lparr>title = Some ''Buy milk'', photoUri = JString ''https://picsum.photos/200'',
               location = Some \<lparr>latitude = - 33, longitude = - 70, timestamp = Some 1700000000\<rparr>\<rparr>"
          sample_platform no_content_network "''tok''"]
    by (simp add: t')
  show ?thesis using a b by simp
qed

subsection \<open>updateTodo\<close>

lemma updateTodo_request:
  assumes "updateTodo_payload P data = Inr payload"
  shows "snd (updateTodo P fetch ident token data) =
           [\<lparr>url = api_url_text P @ ''/todos/'' @ ident, req_method = Some ''PATCH'',
             headers = [(''Authorization'', ''Bearer '' @ token),
                        (''Content-Type'', ''application/json'')],
             req_body = Some (json_stringify P (JObject payload))\<rparr>]"
  using assms by (simp add: updateTodo_def Let_def split: sum.splits)

text \<open>
  C4. With the legacy boolean \<open>b\<close>, the payload of \<^verbatim>\<open>updateTodo\<close> is exactly
  \<^verbatim>\<open>{ completed: b }\<close>, and the one request issued is a PATCH whose body is the JSON text
  of that object.
\<close>

theorem updateTodo_legacy_payload:
  "updateTodo_payload P (Legacy b) = Inr [(''completed'', JBool b)] \<and>
   snd (updateTodo P fetch ident token (Legacy b)) =
     [\<lparr>url = api_url_text P @ ''/todos/'' @ ident, req_method = Some ''PATCH'',
       headers = [(''Authorization'', ''Bearer '' @ token),
                  (''Content-Type'', ''application/json'')],
       req_body = Some (json_stringify P (JObject [(''completed'', JBool b)]))\<rparr>]"
proof -
  have p: "updateTodo_payload P (Legacy b) = Inr [(''completed'', JBool b)]"
    by (simp add: updateTodo_payload_def)
  show ?thesis
    using p updateTodo_request [OF p] by simp
qed

theorem updateTodo_legacy_payload_witness:
  \<open>updateTodo_payload sample_platform (Legacy True) = Inr [(''completed'', JBool True)] \<and>
   snd (updateTodo sample_platform no_content_network ''7'' ''tok'' (Legacy True)) =
     [\<lparr>url = ''https://api.example.com/todos/7'', req_method = Some ''PATCH'',
       headers = [(''Authorization'', ''Bearer tok''), (''Content-Type'', ''application/json'')],
       req_body = Some ''{"completed":true}''\<rparr>]\<close>
  using updateTodo_legacy_payload [of sample_platform True no_content_network "''7''" "''tok''"]
  by (simp add: sample_defs api_url_text_def API_URL_def strip_trailing_slash_def)

lemma updateTodo_payload_changes:
  "\<exists>lat lon. updateTodo_payload P (Changes c) =
     Inr ((case ch_title c of None \<Rightarrow> [] | Some t \<Rightarrow> [(''title'', JString t)]) @
          (case ch_completed c of None \<Rightarrow> [] | Some b \<Rightarrow> [(''completed'', JBool b)]) @
          (if ch_image c \<noteq> JUndefined then [(''image'', ch_image c)] else []) @
          (if truthy P (ch_location c)
           then [(''location'', JObject [(''latitude'', lat), (''longitude'', lon)])] else []))"
proof (cases "truthy P (ch_location c)")
  case True
  obtain lat where lat: "get_prop P (ch_location c) ''latitude'' = Inr lat"
    using get_prop_truthy [OF True] by blast
  obtain lon where lon: "get_prop P (ch_location c) ''longitude'' = Inr lon"
    using get_prop_truthy [OF True] by blast
  have "updateTodo_payload P (Changes c) =
     Inr ((case ch_title c of None \<Rightarrow> [] | Some t \<Rightarrow> [(''title'', JString t)]) @
          (case ch_completed c of None \<Rightarrow> [] | Some b \<Rightarrow> [(''completed'', JBool b)]) @
          (if ch_image c \<noteq> JUndefined then [(''image'', ch_image c)] else []) @
          [(''location'', JObject [(''latitude'', lat), (''longitude'', lon)])])"
    using True lat lon
    by (simp add: updateTodo_payload_def Let_def split: option.splits)
  then show ?thesis using True by auto
next
  case False
  then show ?thesis
    by (simp add: updateTodo_payload_def Let_def split: option.splits)
qed

text \<open>
  C5. With an object of changes, \<^verbatim>\<open>updateTodo\<close> always builds a payload, sent as the body
  of one PATCH. Its keys are among \<^verbatim>\<open>title\<close>, \<^verbatim>\<open>completed\<close>, \<^verbatim>\<open>image\<close> and
  \<^verbatim>\<open>location\<close>, each at most once; \<^verbatim>\<open>title\<close> and \<^verbatim>\<open>completed\<close> are keys exactly when
  the input defines them; \<^verbatim>\<open>image\<close> is a key exactly when the input's image is not
  \<^verbatim>\<open>undefined\<close>, \<^verbatim>\<open>null\<close> included, and holds that value; \<^verbatim>\<open>location\<close> is a key only
  when the input defines a location (exactly when that location is truthy).
\<close>

theorem updateTodo_changes_keys:
  "\<exists>payload. updateTodo_payload P (Changes c) = Inr payload \<and>
     snd (updateTodo P fetch ident token (Changes c)) =
       [\<lparr>url = api_url_text P @ ''/todos/'' @ ident, req_method = Some ''PATCH'',
         headers = [(''Authorization'', ''Bearer '' @ token),
                    (''Content-Type'', ''application/json'')],
         req_body = Some (json_stringify P (JObject payload))\<rparr>] \<and>
     fst ` set payload \<subseteq> {''title'', ''completed'', ''image'', ''location''} \<and>
     distinct (map fst payload) \<and>
     (''title'' \<in> fst ` set payload \<longleftrightarrow> ch_title c \<noteq> None) \<and>
     (''completed'' \<in> fst ` set payload \<longleftrightarrow> ch_completed c \<noteq> None) \<and>
     (''image'' \<in> fst ` set payload \<longleftrightarrow> ch_image c \<noteq> JUndefined) \<and>
     (''location'' \<in> fst ` set payload \<longleftrightarrow> truthy P (ch_location c)) \<and>
     (''location'' \<in> fst ` set payload \<longrightarrow> ch_location c \<noteq> JUndefined) \<and>
     (ch_image c \<noteq> JUndefined \<longrightarrow> map_of payload ''image'' = Some (ch_image c)) \<and>
     (\<forall>b. ch_completed c = Some b \<longrightarrow> map_of payload ''completed'' = Some (JBool b))"
proof -
  obtain lat lon where p: "updateTodo_payload P (Changes c) =
     Inr ((case ch_title c of None \<Rightarrow> [] | Some t \<Rightarrow> [(''title'', JString t)]) @
          (case ch_completed c of None \<Rightarrow> [] | Some b \<Rightarrow> [(''completed'', JBool b)]) @
          (if ch_image c \<noteq> JUndefined then [(''image'', ch_image c)] else []) @
          (if truthy P (ch_location c)
           then [(''location'', JObject [(''latitude'', lat), (''longitude'', lon)])] else []))"
    using updateTodo_payload_changes by blast
  define payload where "payload =
          (case ch_title c of None \<Rightarrow> [] | Some t \<Rightarrow> [(''title'', JString t)]) @
          (case ch_completed c of None \<Rightarrow> [] | Some b \<Rightarrow> [(''completed'', JBool b)]) @
          (if ch_image c \<noteq> JUndefined then [(''image'', ch_image c)] else []) @
          (if truthy P (ch_location c)
           then [(''location'', JObject [(''latitude'', lat), (''longitude'', lon)])] else [])"
  have p': "updateTodo_payload P (Changes c) = Inr payload"
    using p by (simp add: payload_def)
  note req = updateTodo_request [OF p', of fetch ident token]
  have keys: "fst ` set payload \<subseteq> {''title'', ''completed'', ''image'', ''location''}"
    by (cases "ch_title c"; cases "ch_completed c") (auto simp: payload_def)
  have dist: "distinct (map fst payload)"
    by (cases "ch_title c"; cases "ch_completed c") (auto simp: payload_def)
  have k1: "''title'' \<in> fst ` set payload \<longleftrightarrow> ch_title c \<noteq> None"
    by (cases "ch_title c"; cases "ch_completed c") (auto simp: payload_def)
  have k2: "''completed'' \<in> fst ` set payload \<longleftrightarrow> ch_completed c \<noteq> None"
    by (cases "ch_title c"; cases "ch_completed c") (auto simp: payload_def)
  have k3: "''image'' \<in> fst ` set payload \<longleftrightarrow> ch_image c \<noteq> JUndefined"
    by (cases "ch_title c"; cases "ch_completed c") (auto simp: payload_def)
  have k4: "''location'' \<in> fst ` set payload \<longleftrightarrow> truthy P (ch_location c)"
    by (cases "ch_title c"; cases "ch_completed c") (auto simp: payload_def)
  have k5: "''location'' \<in> fst ` set payload \<longrightarrow> ch_location c \<noteq> JUndefined"
    using k4 by auto
  have v1: "ch_image c \<noteq> JUndefined \<longrightarrow> map_of payload ''image'' = Some (ch_image c)"
    by (cases "ch_title c"; cases "ch_completed c") (auto simp: payload_def)
  have v2: "\<forall>b. ch_completed c = Some b \<longrightarrow> map_of payload ''completed'' = Some (JBool b)"
    by (cases "ch_title c"; cases "ch_completed c") (auto simp: payload_def)
  show ?thesis
    using p' req keys dist k1 k2 k3 k4 k5 v1 v2 by blast
qed

theorem updateTodo_changes_keys_witness:
  \<open>updateTodo_payload sample_platform
      (Changes \<lparr>ch_completed = None, ch_title = Some ''x'', ch_image = JUndefined,
                ch_location = JUndefined\<rparr>) = Inr [(''title'', JString ''x'')] \<and>
    snd (updateTodo sample_platform no_content_network ''7'' ''tok''
      (Changes \<lparr>ch_completed = None, ch_title = Some ''x'', ch_image = JUndefined,
                ch_location = JUndefined\<rparr>)) =
     [\<lparr>url = ''https://api.example.com/todos/7'', req_method = Some ''PATCH'',
       headers = [(''Authorization'', ''Bearer tok''), (''Content-Type'', ''application/json'')],
       req_body = Some ''{"title":"x"}''\<rparr>] \<and>
    updateTodo_payload sample_platform
      (Changes \<lparr>ch_completed = None, ch_title = None, ch_image = JNull,
                ch_location = JUndefined\<rparr>) = Inr [(''image'', JNull)]\<close>
proof -
  have a: "\<And>payload.
      updateTodo_payload sample_platform
        (Changes \<lparr>ch_completed = None, ch_title = Some ''x'', ch_image = JUndefined,
                  ch_location = JUndefined\<rparr>) = Inr payload \<Longrightarrow> payload = [(''title'', JString ''x'')]"
    by (simp add: updateTodo_payload_def)
  have b: "updateTodo_payload sample_platform
      (Changes \<lparr>ch_completed = None, ch_title = None, ch_image = JNull,
                ch_location = JUndefined\<rparr>) = Inr [(''image'', JNull)]"
    by (simp add: updateTodo_payload_def)
  show ?thesis
    using updateTodo_changes_keys
      [of sample_platform
          "\<lparr>ch_completed = None, ch_title = Some ''x'', ch_image = JUndefined,
                ch_location = JUndefined\<rparr>" no_content_network "''7''" "''tok''"] a b
    by (auto simp: sample_defs api_url_text_def API_URL_def strip_trailing_slash_def)
qed

text \<open>
  C10. With an object of changes whose title is \<open>t\<close>, the payload of \<^verbatim>\<open>updateTodo\<close> holds
  \<open>t\<close> itself under \<^verbatim>\<open>title\<close>: nothing is trimmed.
\<close>

theorem updateTodo_title_verbatim:
  assumes "ch_title c = Some t"
  shows "\<exists>payload. updateTodo_payload P (Changes c) = Inr payload \<and>
           map_of payload ''title'' = Some (JString t) \<and>
           snd (updateTodo P fetch ident token (Changes c)) =
             [\<lparr>url = api_url_text P @ ''/todos/'' @ ident, req_method = Some ''PATCH'',
               headers = [(''Authorization'', ''Bearer '' @ token),
                          (''Content-Type'', ''application/json'')],
               req_body = Some (json_stringify P (JObject payload))\<rparr>]"
proof -
  obtain lat lon where p: "updateTodo_payload P (Changes c) =
     Inr ((case ch_title c of None \<Rightarrow> [] | Some t \<Rightarrow> [(''title'', JString t)]) @
          (case ch_completed c of None \<Rightarrow> [] | Some b \<Rightarrow> [(''completed'', JBool b)]) @
          (if ch_image c \<noteq> JUndefined then [(''image'', ch_image c)] else []) @
          (if truthy P (ch_location c)
           then [(''location'', JObject [(''latitude'', lat), (''longitude'', lon)])] else []))"
    using updateTodo_payload_changes by blast
  have m: "map_of ((case ch_title c of None \<Rightarrow> [] | Some t \<Rightarrow> [(''title'', JString t)]) @
          (case ch_completed c of None \<Rightarrow> [] | Some b \<Rightarrow> [(''completed'', JBool b)]) @
          (if ch_image c \<noteq> JUndefined then [(''image'', ch_image c)] else []) @
          (if truthy P (ch_location c)
           then [(''location'', JObject [(''latitude'', lat), (''longitude'', lon)])] else []))
        ''title'' = Some (JString t)"
    using assms by simp
  show ?thesis
    using p m updateTodo_request [OF p, of fetch ident token] by blast
qed

theorem updateTodo_title_verbatim_witness:
  \<open>updateTodo_payload sample_platform
      (Changes \<lparr>ch_completed = None, ch_title = Some ''  x  '', ch_image = JUndefined,
                ch_location = JUndefined\<rparr>) = Inr [(''title'', JString ''  x  '')] \<and>
    snd (updateTodo sample_platform no_content_network ''7'' ''tok''
      (Changes \<lparr>ch_completed = None, ch_title = Some ''  x  '', ch_image = JUndefined,
                ch_location = JUndefined\<rparr>)) =
     [\<lparr>url = ''https://api.example.com/todos/7'', req_method = Some ''PATCH'',
       headers = [(''Authorization'', ''Bearer tok''), (''Content-Type'', ''application/json'')],
       req_body = Some ''{"title":"  x  "}''\<rparr>] \<and>
    trim ''  x  '' = ''x''\<close>
proof -
  have a: "\<And>payload.
      updateTodo_payload sample_platform
        (Changes \<lparr>ch_completed = None, ch_title = Some ''  x  '', ch_image = JUndefined,
                  ch_location = JUndefined\<rparr>) = Inr payload \<Longrightarrow> payload = [(''title'', JString ''  x  '')]"
    by (simp add: updateTodo_payload_def)
  have t: "trim ''  x  '' = ''x''"
    by (simp add: trim_def is_space_def)
  show ?thesis
    using updateTodo_title_verbatim
      [of "\<lparr>ch_completed = None, ch_title = Some ''  x  '', ch_image = JUndefined,
                ch_location = JUndefined\<rparr>" "''  x  ''" sample_platform no_content_network "''7''" "''tok''"] a t
    by (auto simp: sample_defs api_url_text_def API_URL_def strip_trailing_slash_def)
qed

section \<open>Properties of the toggle handler\<close>

lemma tasks_after_Sent: "tasks_after s (map Sent reqs @ es) = tasks_after s es"
  by (induction reqs) simp_all

lemma tasks_after_Sent_only: "tasks_after s (map Sent reqs) = s"
  using tasks_after_Sent [of s reqs "[]"] by simp

lemma toggled_nth:
  "k < length prev \<Longrightarrow>
   toggled ident cs prev ! k =
     (if task_id (prev ! k) = ident then (prev ! k)\<lparr>task_completed := \<not> cs\<rparr> else prev ! k)"
  by (simp add: toggled_def)

text \<open>
  C9, as the code has it. With a token, \<^verbatim>\<open>handleToggle\<close> first writes the list in which
  every task with the given identifier has its completed flag set to the negation of the
  status passed in (the flag is flipped when that status is the task's own) and every
  other task is as it was; only then is the request sent. When the update fails, the
  handler writes back \<open>tasks\<close>, the list it captured before the call, so that the list
  after the handler is that list; when the captured list is the state the handler started
  from, the list after a failure is that state and no task is left modified. When the
  update succeeds the list stays the optimistic one.
\<close>

theorem handleToggle_optimistic_rollback:
  assumes "token = Some tok" and "tok \<noteq> []"
    and "r = updateTodo P fetch ident tok (Legacy (\<not> cs))"
    and "events = handleToggle P fetch token tasks prev ident cs"
  shows "(\<exists>rest. events = SetTasks (toggled ident cs prev) # map Sent (snd r) @ rest \<and>
            (\<forall>e. fst r = Inl e \<longrightarrow>
               rest = [ConsoleError e, SetTasks tasks,
                       Alert ''Error'' ''No se pudo actualizar la tarea'']) \<and>
            (\<forall>u. fst r = Inr u \<longrightarrow> rest = [])) \<and>
         length (toggled ident cs prev) = length prev \<and>
         (\<forall>k<length prev.
            toggled ident cs prev ! k =
              (if task_id (prev ! k) = ident then (prev ! k)\<lparr>task_completed := \<not> cs\<rparr>
               else prev ! k)) \<and>
         (\<forall>k<length prev.
            task_id (prev ! k) = ident \<and> task_completed (prev ! k) = cs \<longrightarrow>
            task_completed (toggled ident cs prev ! k) = (\<not> task_completed (prev ! k))) \<and>
         (\<forall>e. fst r = Inl e \<longrightarrow> tasks_after prev events = tasks) \<and>
         (tasks = prev \<longrightarrow> (\<forall>e. fst r = Inl e \<longrightarrow> tasks_after prev events = prev)) \<and>
         (\<forall>u. fst r = Inr u \<longrightarrow> tasks_after prev events = toggled ident cs prev)"
proof -
  define rest where "rest =
     (case fst r of
        Inr updated \<Rightarrow> []
      | Inl e \<Rightarrow> [ConsoleError e, SetTasks tasks,
                   Alert ''Error'' ''No se pudo actualizar la tarea''])"
  have ev: "events = SetTasks (toggled ident cs prev) # map Sent (snd r) @ rest"
    using assms by (simp add: handleToggle_def rest_def Let_def split: prod.splits)
  have r1: "\<forall>e. fst r = Inl e \<longrightarrow>
               rest = [ConsoleError e, SetTasks tasks,
                       Alert ''Error'' ''No se pudo actualizar la tarea'']"
    by (simp add: rest_def)
  have r2: "\<forall>u. fst r = Inr u \<longrightarrow> rest = []"
    by (simp add: rest_def)
  have len: "length (toggled ident cs prev) = length prev"
    by (simp add: toggled_def)
  have nth: "\<forall>k<length prev.
            toggled ident cs prev ! k =
              (if task_id (prev ! k) = ident then (prev ! k)\<lparr>task_completed := \<not> cs\<rparr>
               else prev ! k)"
    using toggled_nth by blast
  have flip: "\<forall>k<length prev.
            task_id (prev ! k) = ident \<and> task_completed (prev ! k) = cs \<longrightarrow>
            task_completed (toggled ident cs prev ! k) = (\<not> task_completed (prev ! k))"
    by (simp add: toggled_nth)
  have a1: "\<forall>e. fst r = Inl e \<longrightarrow> tasks_after prev events = tasks"
    using r1 by (auto simp: ev tasks_after_Sent)
  have a1': "tasks = prev \<longrightarrow> (\<forall>e. fst r = Inl e \<longrightarrow> tasks_after prev events = prev)"
    using a1 by simp
  have a2: "\<forall>u. fst r = Inr u \<longrightarrow> tasks_after prev events = toggled ident cs prev"
    using r2 by (auto simp: ev tasks_after_Sent_only)
  show ?thesis
    using ev r1 r2 len nth flip a1 a1' a2 by blast
qed

theorem handleToggle_optimistic_rollback_witness:
  \<open>handleToggle sample_platform failing_network (Some ''tok'') sample_tasks sample_tasks ''1'' False =
     [SetTasks [\<lparr>task_id = ''1'', task_title = ''Buy milk'', task_completed = True\<rparr>,
                \<lparr>task_id = ''2'', task_title = ''Call home'', task_completed = True\<rparr>],
      Sent \<lparr>url = ''https://api.example.com/todos/1'', req_method = Some ''PATCH'',
             headers = [(''Authorization'', ''Bearer tok''), (''Content-Type'', ''application/json'')],
             req_body = Some ''{"completed":true}''\<rparr>,
      ConsoleError (JsError PlainError ''Network request failed''),
      SetTasks sample_tasks,
      Alert ''Error'' ''No se pudo actualizar la tarea''] \<and>
   tasks_after sample_tasks
     (handleToggle sample_platform failing_network (Some ''tok'') sample_tasks sample_tasks ''1'' False)
     = sample_tasks\<close>
proof -
  have r: "updateTodo sample_platform failing_network ''1'' ''tok'' (Legacy True) =
      (Inl (JsError PlainError ''Network request failed''),
       [\<lparr>url = ''https://api.example.com/todos/1'', req_method = Some ''PATCH'',
             headers = [(''Authorization'', ''Bearer tok''), (''Content-Type'', ''application/json'')],
             req_body = Some ''{\"completed\":true}''\<rparr>])"
    by (simp add: updateTodo_def updateTodo_payload_def failing_network_def rethrow_def
        sample_defs api_url_text_def API_URL_def strip_trailing_slash_def)
  have t: "toggled ''1'' False sample_tasks =
      [\<lparr>task_id = ''1'', task_title = ''Buy milk'', task_completed = True\<rparr>,
       \<lparr>task_id = ''2'', task_title = ''Call home'', task_completed = True\<rparr>]"
    by (simp add: toggled_def sample_tasks_def)
  show ?thesis
    using handleToggle_optimistic_rollback
      [of "Some ''tok''" "''tok''"
          "updateTodo sample_platform failing_network ''1'' ''tok'' (Legacy (\<not> False))"
          sample_platform failing_network "''1''" False
          "handleToggle sample_platform failing_network (Some ''tok'') sample_tasks sample_tasks ''1'' False"
          sample_tasks sample_tasks]
    by (auto simp: r t)
qed

text \<open>
  C9 as stated has no other task left modified after a failed update. The handler
  restores the list its render captured, not the state the updater received. With the
  captured list \<open>sample_tasks\<close>, in which task 1 is open, and a state in which task 1 is
  completed, a failed toggle of task 2 leaves task 1 open: a task other than the targeted
  one has changed.
\<close>

theorem handleToggle_stale_snapshot_counterexample:
  "tasks_after
     [\<lparr>task_id = ''1'', task_title = ''Buy milk'', task_completed = True\<rparr>,
      \<lparr>task_id = ''2'', task_title = ''Call home'', task_completed = True\<rparr>]
     (handleToggle sample_platform failing_network (Some ''tok'') sample_tasks
        [\<lparr>task_id = ''1'', task_title = ''Buy milk'', task_completed = True\<rparr>,
         \<lparr>task_id = ''2'', task_title = ''Call home'', task_completed = True\<rparr>]
        ''2'' True)
     = [\<lparr>task_id = ''1'', task_title = ''Buy milk'', task_completed = False\<rparr>,
        \<lparr>task_id = ''2'', task_title = ''Call home'', task_completed = True\<rparr>] \<and>
   tasks_after
     [\<lparr>task_id = ''1'', task_title = ''Buy milk'', task_completed = True\<rparr>,
      \<lparr>task_id = ''2'', task_title = ''Call home'', task_completed = True\<rparr>]
     (handleToggle sample_platform failing_network (Some ''tok'') sample_tasks
        [\<lparr>task_id = ''1'', task_title = ''Buy milk'', task_completed = True\<rparr>,
         \<lparr>task_id = ''2'', task_title = ''Call home'', task_completed = True\<rparr>]
        ''2'' True)
     \<noteq> [\<lparr>task_id = ''1'', task_title = ''Buy milk'', task_completed = True\<rparr>,
        \<lparr>task_id = ''2'', task_title = ''Call home'', task_completed = True\<rparr>]"
  by (simp add: handleToggle_def updateTodo_def updateTodo_payload_def failing_network_def
      rethrow_def sample_tasks_def)

end
